theory Spec2Isabelle
  imports Complex_Main "HOL-Library.Sublist"
begin

section \<open>Patterns, errors and the object store\<close>

text \<open>
  The repository builds regular-expression source text out of \<open>Pattern\<close> objects.
  Its file \<open>simply/static.js\<close> holds the named character-class factories and the six
  lookaround constructors; both call into \<open>pattern.js\<close> (the class \<open>Pattern\<close>, its
  method \<open>call\<close>, the function \<open>lit\<close> and the error class \<open>STRlingError\<close>), which is
  not among the sources. Those parts are modelled from the specification and marked so.

  JavaScript objects have identity and can be mutated, so a \<open>Pattern\<close> lives in a store:
  a reference is an index into the list of all objects allocated so far, and \<open>new\<close>
  appends one object. Every operation takes the store and returns its result together
  with the store it leaves behind; a \<open>throw\<close> is the result \<open>Inl\<close>.
\<close>

text \<open>
  Modelled from the spec: the class \<open>Pattern\<close> of \<open>pattern.js\<close> (the spec's Fragment,
  section 3). \<open>pattern\<close> is the raw regex text (the key the source passes to the
  constructor, the spec's \<open>text\<close>) and \<open>composite\<close> the spec's \<open>isComposite\<close>.
\<close>

record Pattern =
  pattern :: string
  isAtomic :: bool
  isNegatedClass :: bool
  composite :: bool

text \<open>
  Modelled from the spec: the error class \<open>STRlingError\<close> of \<open>pattern.js\<close>. The source
  constructs it from a message; the spec (section 7) tells its uses apart by kind.
\<close>

datatype error_kind = InvalidArgument | InvalidQuantifier

datatype error = STRlingError error_kind string

type_synonym ref = nat

type_synonym heap = "Pattern list"

text \<open>
  The values a JavaScript caller can pass where a pattern is expected: a primitive
  string, a reference to a \<open>Pattern\<close> instance, or anything else.
\<close>

datatype js_value =
    JSUndefined
  | JSNull
  | JSBoolean bool
  | JSNumber int
  | JSString string
  | JSPattern ref
  | JSObject

definition alloc :: "Pattern \<Rightarrow> heap \<Rightarrow> ref \<times> heap" where
  "alloc p h = (length h, h @ [p])"

text \<open>
  What a call hands back to its caller, read from the store the call leaves: the error
  it threw, or the \<open>Pattern\<close> its result refers to.
\<close>

definition result_of :: "(error + ref) \<times> heap \<Rightarrow> error + Pattern" where
  "result_of rh = (case fst rh of Inl e \<Rightarrow> Inl e | Inr r \<Rightarrow> Inr (snd rh ! r))"

text \<open>The kind of the error a call threw, if it threw.\<close>

definition failure_kind :: "(error + ref) \<times> heap \<Rightarrow> error_kind option" where
  "failure_kind rh =
     (case fst rh of Inl (STRlingError k m) \<Rightarrow> Some k | Inr r \<Rightarrow> None)"


text \<open>The two tests the lookaround constructors make on their argument.\<close>

definition typeof_string :: "js_value \<Rightarrow> bool" where
  "typeof_string v = (case v of JSString s \<Rightarrow> True | _ \<Rightarrow> False)"

definition instanceof_Pattern :: "js_value \<Rightarrow> bool" where
  "instanceof_Pattern v = (case v of JSPattern a \<Rightarrow> True | _ \<Rightarrow> False)"

section \<open>The parts of pattern.js the source calls\<close>

definition backslash :: char where
  "backslash = CHR 0x5C"

text \<open>
  Modelled from the spec: \<open>escapeLiteral\<close> (section 4.1) of \<open>pattern.js\<close>. Every
  metacharacter of the spec's list (\<open>. * + ? ( ) [ ] { } ^ $ |\<close> and the backslash) is
  preceded by the escape marker, the backslash.
\<close>

definition metachars :: "char list" where
  "metachars = ''.*+?()[]{}^$|'' @ [backslash]"

fun escapeLiteral :: "string \<Rightarrow> string" where
  "escapeLiteral [] = []"
| "escapeLiteral (c # cs) =
     (if c \<in> set metachars then [backslash, c] else [c]) @ escapeLiteral cs"

text \<open>
  Modelled from the spec: \<open>makeFragment\<close> (section 4.2), the constructor of \<open>Pattern\<close>
  in \<open>pattern.js\<close>. A flag the call site leaves out is false; nothing is inferred from
  the text.
\<close>

definition makeFragment :: "string \<Rightarrow> bool option \<Rightarrow> bool option \<Rightarrow> bool option \<Rightarrow> Pattern" where
  "makeFragment txt atomic negated compos =
     \<lparr>pattern = txt,
      isAtomic = (case atomic of None \<Rightarrow> False | Some b \<Rightarrow> b),
      isNegatedClass = (case negated of None \<Rightarrow> False | Some b \<Rightarrow> b),
      composite = (case compos of None \<Rightarrow> False | Some b \<Rightarrow> b)\<rparr>"

text \<open>
  \<open>new Pattern(...)\<close>: the source calls it with positional arguments
  (\<open>new Pattern('[^a-z]', true, true)\<close>: text, atomic, negated) and with an object
  (\<open>new Pattern({ pattern: ..., composite: true })\<close>); both name the same four fields.
\<close>

definition new_Pattern :: "string \<Rightarrow> bool option \<Rightarrow> bool option \<Rightarrow> bool option \<Rightarrow> heap \<Rightarrow> ref \<times> heap" where
  "new_Pattern txt atomic negated compos h = alloc (makeFragment txt atomic negated compos) h"

text \<open>
  Modelled from the spec: \<open>lit\<close> of \<open>pattern.js\<close>, the literal constructor
  (section 4.2): the string is escaped once, and the result is atomic only when the
  escaped text is a single character.
\<close>

definition lit :: "string \<Rightarrow> heap \<Rightarrow> ref \<times> heap" where
  "lit s h =
     new_Pattern (escapeLiteral s) (Some (length (escapeLiteral s) = 1)) None None h"

text \<open>
  Modelled from the spec: the coercion of a \<open>Pattern\<close> to its rendered text
  (section 6), which a template literal \<open>`...${pattern}...`\<close> applies.
\<close>

definition toString :: "heap \<Rightarrow> ref \<Rightarrow> string" where
  "toString h a = pattern (h ! a)"

subsection \<open>The quantifier applier\<close>

text \<open>
  The optional argument pair \<open>(minRep, maxRep)\<close> of a call, as in \<open>digit()\<close>,
  \<open>digit(3)\<close> and \<open>digit(1, 3)\<close>: both left out, \<open>minRep\<close> alone, or both. A bound is a
  JavaScript number, taken as the rational number it denotes, so \<open>digit(1.5)\<close> is a
  call too (\<open>NaN\<close> and the infinities are left out). The spec (section 4.3) describes
  these three shapes; a call that passes \<open>maxRep\<close> without \<open>minRep\<close> is outside it and
  has no model here.
\<close>

datatype repetition = NoRep | MinRep rat | MinMaxRep rat rat

definition is_integer :: "rat \<Rightarrow> bool" where
  "is_integer x = (of_int \<lfloor>x\<rfloor> = x)"

text \<open>The decimal numeral of a bound, as the suffix spells it.\<close>

definition digit_char :: "nat \<Rightarrow> char" where
  "digit_char d = ''0123456789'' ! d"

fun string_of_nat :: "nat \<Rightarrow> string" where
  "string_of_nat n =
     (if n < 10 then [digit_char n]
      else string_of_nat (n div 10) @ [digit_char (n mod 10)])"

fun repeat_suffix :: "repetition \<Rightarrow> string" where
  "repeat_suffix NoRep = []"
| "repeat_suffix (MinRep n) = ''{'' @ string_of_nat (nat \<lfloor>n\<rfloor>) @ ''}''"
| "repeat_suffix (MinMaxRep n m) =
     ''{'' @ string_of_nat (nat \<lfloor>n\<rfloor>) @ '','' @ string_of_nat (nat \<lfloor>m\<rfloor>) @ ''}''"

text \<open>
  The preconditions of section 4.3 on a repetition that is given: every bound a
  non-negative integer, \<open>min\<close> alone not zero, \<open>min\<close> at most \<open>max\<close>, and not both zero.
\<close>

fun invalid_repetition :: "repetition \<Rightarrow> bool" where
  "invalid_repetition NoRep = False"
| "invalid_repetition (MinRep n) = (n < 0 \<or> n = 0 \<or> \<not> is_integer n)"
| "invalid_repetition (MinMaxRep n m) =
     (n < 0 \<or> m < 0 \<or> m < n \<or> (n = 0 \<and> m = 0) \<or> \<not> (is_integer n \<and> is_integer m))"

text \<open>
  Modelled from the spec: \<open>quantify\<close> (section 4.3), the method \<open>Pattern.call\<close> of
  \<open>pattern.js\<close>. With both bounds left out it returns the fragment it was given.
  Otherwise a bound that violates the preconditions (not an integer, negative,
  \<open>min > max\<close>, zero only) or a composite fragment is an \<open>InvalidQuantifier\<close> error
  (whose message the spec leaves open); a fragment that is not atomic is wrapped in a
  non-capturing group before the suffix, and the result carries no flag.
\<close>

definition quantify :: "ref \<Rightarrow> repetition \<Rightarrow> heap \<Rightarrow> (error + ref) \<times> heap" where
  "quantify a rep h =
     (if rep = NoRep then (Inr a, h)
      else if invalid_repetition rep \<or> composite (h ! a)
        then (Inl (STRlingError InvalidQuantifier []), h)
      else
        (let body = (if isAtomic (h ! a) then pattern (h ! a)
                     else ''(?:'' @ pattern (h ! a) @ '')'')
         in case new_Pattern (body @ repeat_suffix rep) (Some False) (Some False) (Some False) h of
              (r, h1) \<Rightarrow> (Inr r, h1)))"

subsection \<open>The composer\<close>

text \<open>
  Modelled from the spec: \<open>merge\<close> (section 4.4), which is not among the sources. No
  argument is an \<open>InvalidArgument\<close> error (whose message the spec leaves open);
  otherwise the texts are concatenated in argument order, the result is not atomic,
  and it is composite exactly when there is more than one argument and one of them is
  composite.
\<close>

definition merge :: "ref list \<Rightarrow> heap \<Rightarrow> (error + ref) \<times> heap" where
  "merge as h =
     (if as = [] then (Inl (STRlingError InvalidArgument []), h)
      else
        (case new_Pattern (concat (map (toString h) as)) (Some False) (Some False)
                (Some (1 < length as \<and> (\<exists>a \<in> set as. composite (h ! a)))) h of
           (r, h1) \<Rightarrow> (Inr r, h1)))"

section \<open>The lookaround constructors (simply/static.js)\<close>

text \<open>
  The message of the six constructors, a template literal that differs in the method
  name only (line breaks and indentation as in the source).
\<close>

definition invalid_pattern_message :: "string \<Rightarrow> string" where
  "invalid_pattern_message name =
     ([CHR 0x0A] @ ''    Method: '') @ (''simply.'' @ name @ ''(pattern)'') @
     ([CHR 0x0A, CHR 0x0A] @
      ''    The parameter must be an instance of Pattern or string.'' @
      [CHR 0x0A, CHR 0x0A] @
      ''    Use a string such as '' @ [CHR 0x22] @ ''123abc$'' @ [CHR 0x22] @
      '' to match literal characters, or use a predefined set like simply.letter().'' @
      [CHR 0x0A] @ ''    '')"

text \<open>\<open>if (typeof pattern === "string") { pattern = lit(pattern); }\<close>\<close>

definition lit_if_string :: "js_value \<Rightarrow> heap \<Rightarrow> js_value \<times> heap" where
  "lit_if_string v h =
     (case v of
        JSString s \<Rightarrow> (case lit s h of (a, h1) \<Rightarrow> (JSPattern a, h1))
      | _ \<Rightarrow> (v, h))"

definition ahead :: "js_value \<Rightarrow> heap \<Rightarrow> (error + ref) \<times> heap" where
  "ahead v h =
     (case lit_if_string v h of
        (JSPattern a, h1) \<Rightarrow>
          (case new_Pattern (''(?='' @ toString h1 a @ '')'') None None (Some True) h1 of
             (r, h2) \<Rightarrow> (Inr r, h2))
      | (_, h1) \<Rightarrow>
          (Inl (STRlingError InvalidArgument (invalid_pattern_message ''ahead'')), h1))"

definition notAhead :: "js_value \<Rightarrow> heap \<Rightarrow> (error + ref) \<times> heap" where
  "notAhead v h =
     (case lit_if_string v h of
        (JSPattern a, h1) \<Rightarrow>
          (case new_Pattern (''(?!'' @ toString h1 a @ '')'') None None (Some True) h1 of
             (r, h2) \<Rightarrow> (Inr r, h2))
      | (_, h1) \<Rightarrow>
          (Inl (STRlingError InvalidArgument (invalid_pattern_message ''notAhead'')), h1))"

definition behind :: "js_value \<Rightarrow> heap \<Rightarrow> (error + ref) \<times> heap" where
  "behind v h =
     (case lit_if_string v h of
        (JSPattern a, h1) \<Rightarrow>
          (case new_Pattern (''(?<='' @ toString h1 a @ '')'') None None (Some True) h1 of
             (r, h2) \<Rightarrow> (Inr r, h2))
      | (_, h1) \<Rightarrow>
          (Inl (STRlingError InvalidArgument (invalid_pattern_message ''behind'')), h1))"

definition notBehind :: "js_value \<Rightarrow> heap \<Rightarrow> (error + ref) \<times> heap" where
  "notBehind v h =
     (case lit_if_string v h of
        (JSPattern a, h1) \<Rightarrow>
          (case new_Pattern (''(?<!'' @ toString h1 a @ '')'') None None (Some True) h1 of
             (r, h2) \<Rightarrow> (Inr r, h2))
      | (_, h1) \<Rightarrow>
          (Inl (STRlingError InvalidArgument (invalid_pattern_message ''notBehind'')), h1))"

definition has :: "js_value \<Rightarrow> heap \<Rightarrow> (error + ref) \<times> heap" where
  "has v h =
     (case lit_if_string v h of
        (JSPattern a, h1) \<Rightarrow>
          (case new_Pattern (''(?=.*'' @ toString h1 a @ '')'') None None (Some True) h1 of
             (r, h2) \<Rightarrow> (Inr r, h2))
      | (_, h1) \<Rightarrow>
          (Inl (STRlingError InvalidArgument (invalid_pattern_message ''has'')), h1))"

definition hasNot :: "js_value \<Rightarrow> heap \<Rightarrow> (error + ref) \<times> heap" where
  "hasNot v h =
     (case lit_if_string v h of
        (JSPattern a, h1) \<Rightarrow>
          (case new_Pattern (''(?!.*'' @ toString h1 a @ '')'') None None (Some True) h1 of
             (r, h2) \<Rightarrow> (Inr r, h2))
      | (_, h1) \<Rightarrow>
          (Inl (STRlingError InvalidArgument (invalid_pattern_message ''hasNot'')), h1))"

text \<open>The six exported constructors, each with the name it is exported under.\<close>

definition lookarounds :: "(string \<times> (js_value \<Rightarrow> heap \<Rightarrow> (error + ref) \<times> heap)) list" where
  "lookarounds =
     [(''ahead'', ahead), (''notAhead'', notAhead), (''behind'', behind),
      (''notBehind'', notBehind), (''has'', has), (''hasNot'', hasNot)]"

text \<open>
  The text \<open>P\<close> that a string or \<open>Pattern\<close> argument stands for inside the rendered
  form: the escaped string, or the text of the \<open>Pattern\<close>.
\<close>

definition rendered_text :: "heap \<Rightarrow> js_value \<Rightarrow> string" where
  "rendered_text h v =
     (case v of JSString s \<Rightarrow> escapeLiteral s | JSPattern a \<Rightarrow> toString h a | _ \<Rightarrow> [])"

text \<open>
  The body the six constructors share, with the method name and the opening of the
  rendered form as parameters; used in the proofs only.
\<close>

definition lookaround :: "string \<Rightarrow> string \<Rightarrow> js_value \<Rightarrow> heap \<Rightarrow> (error + ref) \<times> heap" where
  "lookaround name opening v h =
     (case lit_if_string v h of
        (JSPattern a, h1) \<Rightarrow>
          (case new_Pattern (opening @ toString h1 a @ '')'') None None (Some True) h1 of
             (r, h2) \<Rightarrow> (Inr r, h2))
      | (_, h1) \<Rightarrow>
          (Inl (STRlingError InvalidArgument (invalid_pattern_message name)), h1))"

section \<open>The named character-class factories (simply/static.js)\<close>

text \<open>
  Each factory is \<open>new Pattern(text, flags...).call(minRep, maxRep)\<close>: it allocates the
  \<open>Pattern\<close> of a fixed text and hands it with the repetition to the quantifier
  applier. In a JavaScript string literal \<open>'\\d'\<close> is the two characters backslash
  and \<open>d\<close>.
\<close>

definition alphaNum :: "repetition \<Rightarrow> heap \<Rightarrow> (error + ref) \<times> heap" where
  "alphaNum rep h =
     (case new_Pattern ''[A-Za-z0-9]'' (Some True) None None h of (p, h1) \<Rightarrow> quantify p rep h1)"

definition notAlphaNum :: "repetition \<Rightarrow> heap \<Rightarrow> (error + ref) \<times> heap" where
  "notAlphaNum rep h =
     (case new_Pattern ''[^A-Za-z0-9]'' (Some True) (Some True) None h of (p, h1) \<Rightarrow> quantify p rep h1)"

text \<open>The characters of the template literal that \<open>specialChar\<close> and \<open>notSpecialChar\<close> pass to \<open>lit\<close>.\<close>

definition special_characters :: string where
  "special_characters =
     ''!'' @ [CHR 0x22] @ ''#$%&'' @ [CHR 0x27] @ ''()*+,-./:;<=>?@['' @ [backslash] @
     '']^_'' @ [CHR 0x60] @ ''{|}~''"

definition specialChar :: "repetition \<Rightarrow> heap \<Rightarrow> (error + ref) \<times> heap" where
  "specialChar rep h =
     (case lit special_characters h of
        (special, h1) \<Rightarrow>
          (case new_Pattern (''['' @ toString h1 special @ '']'') (Some True) None None h1 of
             (p, h2) \<Rightarrow> quantify p rep h2))"

definition notSpecialChar :: "repetition \<Rightarrow> heap \<Rightarrow> (error + ref) \<times> heap" where
  "notSpecialChar rep h =
     (case lit special_characters h of
        (special, h1) \<Rightarrow>
          (case new_Pattern (''[^'' @ toString h1 special @ '']'') (Some True) (Some True) None h1 of
             (p, h2) \<Rightarrow> quantify p rep h2))"

definition letter :: "repetition \<Rightarrow> heap \<Rightarrow> (error + ref) \<times> heap" where
  "letter rep h =
     (case new_Pattern ''[A-Za-z]'' (Some True) None None h of (p, h1) \<Rightarrow> quantify p rep h1)"

definition notLetter :: "repetition \<Rightarrow> heap \<Rightarrow> (error + ref) \<times> heap" where
  "notLetter rep h =
     (case new_Pattern ''[^A-Za-z]'' (Some True) (Some True) None h of (p, h1) \<Rightarrow> quantify p rep h1)"

definition upper :: "repetition \<Rightarrow> heap \<Rightarrow> (error + ref) \<times> heap" where
  "upper rep h =
     (case new_Pattern ''[A-Z]'' (Some True) None None h of (p, h1) \<Rightarrow> quantify p rep h1)"

definition notUpper :: "repetition \<Rightarrow> heap \<Rightarrow> (error + ref) \<times> heap" where
  "notUpper rep h =
     (case new_Pattern ''[^A-Z]'' (Some True) (Some True) None h of (p, h1) \<Rightarrow> quantify p rep h1)"

definition lower :: "repetition \<Rightarrow> heap \<Rightarrow> (error + ref) \<times> heap" where
  "lower rep h =
     (case new_Pattern ''[a-z]'' (Some True) None None h of (p, h1) \<Rightarrow> quantify p rep h1)"

definition notLower :: "repetition \<Rightarrow> heap \<Rightarrow> (error + ref) \<times> heap" where
  "notLower rep h =
     (case new_Pattern ''[^a-z]'' (Some True) (Some True) None h of (p, h1) \<Rightarrow> quantify p rep h1)"

definition digit :: "repetition \<Rightarrow> heap \<Rightarrow> (error + ref) \<times> heap" where
  "digit rep h =
     (case new_Pattern [backslash, CHR ''d''] None None None h of (p, h1) \<Rightarrow> quantify p rep h1)"

definition notDigit :: "repetition \<Rightarrow> heap \<Rightarrow> (error + ref) \<times> heap" where
  "notDigit rep h =
     (case new_Pattern [backslash, CHR ''D''] None None None h of (p, h1) \<Rightarrow> quantify p rep h1)"

definition hexDigit :: "repetition \<Rightarrow> heap \<Rightarrow> (error + ref) \<times> heap" where
  "hexDigit rep h =
     (case new_Pattern (''[A-Fa-f'' @ [backslash] @ ''d]'') None None None h of (p, h1) \<Rightarrow> quantify p rep h1)"

definition notHexDigit :: "repetition \<Rightarrow> heap \<Rightarrow> (error + ref) \<times> heap" where
  "notHexDigit rep h =
     (case new_Pattern (''[^A-Fa-f'' @ [backslash] @ ''d]'') None None None h of (p, h1) \<Rightarrow> quantify p rep h1)"

definition whitespace :: "repetition \<Rightarrow> heap \<Rightarrow> (error + ref) \<times> heap" where
  "whitespace rep h =
     (case new_Pattern [backslash, CHR ''s''] None None None h of (p, h1) \<Rightarrow> quantify p rep h1)"

definition notWhitespace :: "repetition \<Rightarrow> heap \<Rightarrow> (error + ref) \<times> heap" where
  "notWhitespace rep h =
     (case new_Pattern [backslash, CHR ''S''] None None None h of (p, h1) \<Rightarrow> quantify p rep h1)"

definition newline :: "repetition \<Rightarrow> heap \<Rightarrow> (error + ref) \<times> heap" where
  "newline rep h =
     (case new_Pattern [backslash, CHR ''n''] None None None h of (p, h1) \<Rightarrow> quantify p rep h1)"

definition notNewline :: "repetition \<Rightarrow> heap \<Rightarrow> (error + ref) \<times> heap" where
  "notNewline rep h =
     (case new_Pattern ''.'' None None None h of (p, h1) \<Rightarrow> quantify p rep h1)"

definition tab :: "repetition \<Rightarrow> heap \<Rightarrow> (error + ref) \<times> heap" where
  "tab rep h =
     (case new_Pattern [backslash, CHR ''t''] None None None h of (p, h1) \<Rightarrow> quantify p rep h1)"

definition notTab :: "repetition \<Rightarrow> heap \<Rightarrow> (error + ref) \<times> heap" where
  "notTab rep h =
     (case new_Pattern [backslash, CHR ''T''] None None None h of (p, h1) \<Rightarrow> quantify p rep h1)"

definition carriage :: "repetition \<Rightarrow> heap \<Rightarrow> (error + ref) \<times> heap" where
  "carriage rep h =
     (case new_Pattern [backslash, CHR ''r''] None None None h of (p, h1) \<Rightarrow> quantify p rep h1)"

definition notCarriage :: "repetition \<Rightarrow> heap \<Rightarrow> (error + ref) \<times> heap" where
  "notCarriage rep h =
     (case new_Pattern ''.'' None None None h of (p, h1) \<Rightarrow> quantify p rep h1)"

definition bound :: "repetition \<Rightarrow> heap \<Rightarrow> (error + ref) \<times> heap" where
  "bound rep h =
     (case new_Pattern [backslash, CHR ''b''] None None None h of (p, h1) \<Rightarrow> quantify p rep h1)"

definition notBound :: "repetition \<Rightarrow> heap \<Rightarrow> (error + ref) \<times> heap" where
  "notBound rep h =
     (case new_Pattern [backslash, CHR ''B''] None None None h of (p, h1) \<Rightarrow> quantify p rep h1)"

text \<open>
  \<open>start()\<close> and \<open>end()\<close>: the anchors, with no repetition (\<open>end\<close> is a reserved word
  of the theory language, hence the longer names).
\<close>

definition start_anchor :: "heap \<Rightarrow> ref \<times> heap" where
  "start_anchor h = new_Pattern ''^'' None None None h"

definition end_anchor :: "heap \<Rightarrow> ref \<times> heap" where
  "end_anchor h = new_Pattern ''$'' None None None h"

section \<open>The target dialect: two-character escapes\<close>

text \<open>
  What an escape \<open>\c\<close> matches in an ECMAScript regular expression compiled without
  the unicode flag, as far as it is a single fixed character: the control escapes
  \<open>t n v f r\<close>, and the identity escape of a character that starts no other escape
  (it matches that character itself). Class escapes, assertions, back references and
  the hexadecimal, unicode and control-letter forms are \<open>OtherEscape\<close>.
\<close>

datatype escape_meaning = MatchesChar char | OtherEscape

definition escape_meaning :: "char \<Rightarrow> escape_meaning" where
  "escape_meaning c =
     (if c = CHR ''t'' then MatchesChar (CHR 0x09)
      else if c = CHR ''n'' then MatchesChar (CHR 0x0A)
      else if c = CHR ''v'' then MatchesChar (CHR 0x0B)
      else if c = CHR ''f'' then MatchesChar (CHR 0x0C)
      else if c = CHR ''r'' then MatchesChar (CHR 0x0D)
      else if c \<in> set ''dDsSwWbBcxuk0123456789'' then OtherEscape
      else MatchesChar c)"

section \<open>Properties\<close>




lemma lookaround_unfold:
  "ahead = lookaround ''ahead'' ''(?=''"
  "notAhead = lookaround ''notAhead'' ''(?!''"
  "behind = lookaround ''behind'' ''(?<=''"
  "notBehind = lookaround ''notBehind'' ''(?<!''"
  "has = lookaround ''has'' ''(?=.*''"
  "hasNot = lookaround ''hasNot'' ''(?!.*''"
  by (simp_all add: fun_eq_iff ahead_def notAhead_def behind_def notBehind_def has_def hasNot_def lookaround_def)

lemma makeFragment_sel:
  "pattern (makeFragment t a n c) = t"
  "isAtomic (makeFragment t a n c) = (a = Some True)"
  "isNegatedClass (makeFragment t a n c) = (n = Some True)"
  "composite (makeFragment t a n c) = (c = Some True)"
  by (auto simp: makeFragment_def split: option.splits)

lemma lookaround_string:
  "lookaround name opening (JSString s) h =
     (Inr (Suc (length h)),
      h @ [makeFragment (escapeLiteral s) (Some (length (escapeLiteral s) = 1)) None None,
           makeFragment (opening @ escapeLiteral s @ '')'') None None (Some True)])"
  by (simp add: lookaround_def lit_if_string_def lit_def new_Pattern_def alloc_def toString_def
      nth_append makeFragment_sel)

lemma lookaround_pattern:
  "lookaround name opening (JSPattern a) h =
     (Inr (length h), h @ [makeFragment (opening @ pattern (h ! a) @ '')'') None None (Some True)])"
  by (simp add: lookaround_def lit_if_string_def new_Pattern_def alloc_def toString_def)

lemma lookaround_other:
  "\<not> typeof_string v \<Longrightarrow> \<not> instanceof_Pattern v \<Longrightarrow>
   lookaround name opening v h =
     (Inl (STRlingError InvalidArgument (invalid_pattern_message name)), h)"
  by (cases v) (simp_all add: lookaround_def lit_if_string_def typeof_string_def instanceof_Pattern_def)

lemma value_cases:
  obtains s where "v = JSString s" | a where "v = JSPattern a"
  | "\<not> typeof_string v" "\<not> instanceof_Pattern v"
  by (cases v) (auto simp: typeof_string_def instanceof_Pattern_def)

lemma lookaround_result:
  assumes "typeof_string v \<or> instanceof_Pattern v"
  shows "result_of (lookaround name opening v h) =
           Inr (makeFragment (opening @ rendered_text h v @ '')'') None None (Some True))"
proof (cases v rule: value_cases)
  case (1 s)
  then show ?thesis
    by (simp add: lookaround_string result_of_def rendered_text_def nth_append)
next
  case (2 a)
  then show ?thesis
    by (simp add: lookaround_pattern result_of_def rendered_text_def toString_def)
next
  case 3
  with assms show ?thesis by simp
qed


lemma lookaround_failure_kind:
  "failure_kind (lookaround name opening v h) =
     (if \<not> typeof_string v \<and> \<not> instanceof_Pattern v then Some InvalidArgument else None)"
  by (cases v rule: value_cases)
     (simp_all add: lookaround_string lookaround_pattern lookaround_other failure_kind_def
        typeof_string_def instanceof_Pattern_def)

lemma new_Pattern_eq:
  "new_Pattern t a n c h = (length h, h @ [makeFragment t a n c])"
  by (simp add: new_Pattern_def alloc_def)

lemma quantify_NoRep: "quantify a NoRep h = (Inr a, h)"
  by (simp add: quantify_def)


lemma is_integer_simps:
  "is_integer 0" "is_integer 1" "is_integer (numeral k)"
  by (simp_all add: is_integer_def)



text \<open>
  C1. Given a \<open>Pattern\<close> (or a string, which is first made a literal \<open>Pattern\<close>), the
  six lookaround constructors render \<open>(?=P)\<close>, \<open>(?!P)\<close>, \<open>(?<=P)\<close>, \<open>(?<!P)\<close>,
  \<open>(?=.*P)\<close> and \<open>(?!.*P)\<close>, where \<open>P\<close> is the text of the argument. In particular
  \<open>ahead("abc")\<close> renders \<open>(?=abc)\<close>, \<open>notAhead\<close> of the digit fragment (whose text is
  backslash \<open>d\<close>) renders \<open>(?!\<close> backslash \<open>d)\<close>, and \<open>has(lit("x"))\<close> renders
  \<open>(?=.*x)\<close>.
\<close>

theorem lookaround_rendering:
  "(typeof_string v \<or> instanceof_Pattern v \<longrightarrow>
     (\<exists>p. result_of (ahead v h) = Inr p \<and> pattern p = ''(?='' @ rendered_text h v @ '')'') \<and>
     (\<exists>p. result_of (notAhead v h) = Inr p \<and> pattern p = ''(?!'' @ rendered_text h v @ '')'') \<and>
     (\<exists>p. result_of (behind v h) = Inr p \<and> pattern p = ''(?<='' @ rendered_text h v @ '')'') \<and>
     (\<exists>p. result_of (notBehind v h) = Inr p \<and> pattern p = ''(?<!'' @ rendered_text h v @ '')'') \<and>
     (\<exists>p. result_of (has v h) = Inr p \<and> pattern p = ''(?=.*'' @ rendered_text h v @ '')'') \<and>
     (\<exists>p. result_of (hasNot v h) = Inr p \<and> pattern p = ''(?!.*'' @ rendered_text h v @ '')'')) \<and>
   (\<exists>p. result_of (ahead (JSString ''abc'') h) = Inr p \<and> pattern p = ''(?=abc)'') \<and>
   (\<exists>d h1 p. digit NoRep h = (Inr d, h1) \<and> pattern (h1 ! d) = [backslash, CHR ''d''] \<and>
      result_of (notAhead (JSPattern d) h1) = Inr p \<and>
      pattern p = ''(?!'' @ [backslash, CHR ''d''] @ '')'') \<and>
   (\<exists>x h1 p. lit ''x'' h = (x, h1) \<and>
      result_of (has (JSPattern x) h1) = Inr p \<and> pattern p = ''(?=.*x)'')"
proof -
  have ex1: "\<exists>p. result_of (ahead (JSString ''abc'') h) = Inr p \<and> pattern p = ''(?=abc)''"
    by (simp add: lookaround_unfold lookaround_result typeof_string_def rendered_text_def
        metachars_def backslash_def makeFragment_sel)
  have ex2: "\<exists>d h1 p. digit NoRep h = (Inr d, h1) \<and> pattern (h1 ! d) = [backslash, CHR ''d''] \<and>
      result_of (notAhead (JSPattern d) h1) = Inr p \<and>
      pattern p = ''(?!'' @ [backslash, CHR ''d''] @ '')''"
    by (simp add: digit_def new_Pattern_eq quantify_NoRep lookaround_unfold lookaround_result
        instanceof_Pattern_def rendered_text_def toString_def makeFragment_sel)
  have ex3: "\<exists>x h1 p. lit ''x'' h = (x, h1) \<and>
      result_of (has (JSPattern x) h1) = Inr p \<and> pattern p = ''(?=.*x)''"
    by (simp add: lit_def new_Pattern_eq lookaround_unfold lookaround_result
        instanceof_Pattern_def rendered_text_def toString_def makeFragment_sel
        metachars_def backslash_def)
  show ?thesis
    using ex1 ex2 ex3 by (simp add: lookaround_unfold lookaround_result makeFragment_sel)
qed

theorem lookaround_rendering_witness:
  "instanceof_Pattern (JSPattern 0) \<and>
   result_of (behind (JSPattern 0) [makeFragment ''[a-z]'' (Some True) None None]) =
     Inr (makeFragment ''(?<=[a-z])'' None None (Some True)) \<and>
   (\<exists>p. result_of (hasNot (JSPattern 0) [makeFragment ''[a-z]'' (Some True) None None]) = Inr p \<and>
      pattern p = ''(?!.*[a-z])'')"
  using lookaround_rendering [of "JSPattern 0" "[makeFragment ''[a-z]'' (Some True) None None]"]
  by (simp add: instanceof_Pattern_def rendered_text_def toString_def makeFragment_sel
      lookaround_unfold lookaround_pattern result_of_def)


lemma lookaround_flags_general:
  assumes "typeof_string v \<or> instanceof_Pattern v"
  shows "\<exists>r h1. lookaround name opn v h = (Inr r, h1) \<and> r < length h1 \<and>
           composite (h1 ! r) \<and> \<not> isAtomic (h1 ! r) \<and> \<not> isNegatedClass (h1 ! r) \<and>
           (\<forall>rep. rep \<noteq> NoRep \<longrightarrow>
              quantify r rep h1 = (Inl (STRlingError InvalidQuantifier []), h1))"
proof (cases v rule: value_cases)
  case (1 s)
  then show ?thesis
    by (simp add: lookaround_string quantify_def nth_append makeFragment_sel)
next
  case (2 a)
  then show ?thesis
    by (simp add: lookaround_pattern quantify_def nth_append makeFragment_sel)
next
  case 3
  with assms show ?thesis by simp
qed

text \<open>
  C2. Given a string or a \<open>Pattern\<close>, each of the six lookaround constructors returns a
  \<open>Pattern\<close> with \<open>composite\<close> true, \<open>isAtomic\<close> false and \<open>isNegatedClass\<close> false; so the
  quantifier applier puts no repetition suffix on it: asked for any repetition, it
  fails with \<open>InvalidQuantifier\<close>.
\<close>

theorem lookaround_flags:
  assumes "typeof_string v \<or> instanceof_Pattern v"
  shows "\<forall>(name, op) \<in> set lookarounds.
           \<exists>r h1. op v h = (Inr r, h1) \<and> r < length h1 \<and>
             composite (h1 ! r) \<and> \<not> isAtomic (h1 ! r) \<and> \<not> isNegatedClass (h1 ! r) \<and>
             (\<forall>rep. rep \<noteq> NoRep \<longrightarrow>
                quantify r rep h1 = (Inl (STRlingError InvalidQuantifier []), h1))"
  unfolding lookarounds_def lookaround_unfold
  using assms by (simp add: lookaround_flags_general)

theorem lookaround_flags_witness:
  "typeof_string (JSString ''a|b'') \<and>
   ahead (JSString ''a|b'') [] =
     (Inr 1, [makeFragment (''a'' @ [backslash] @ ''|b'') (Some False) None None,
              makeFragment (''(?=a'' @ [backslash] @ ''|b)'') None None (Some True)]) \<and>
   composite (snd (ahead (JSString ''a|b'') []) ! 1) \<and>
   \<not> isAtomic (snd (ahead (JSString ''a|b'') []) ! 1) \<and>
   \<not> isNegatedClass (snd (ahead (JSString ''a|b'') []) ! 1) \<and>
   fst (quantify 1 (MinMaxRep 2 5) (snd (ahead (JSString ''a|b'') []))) =
     Inl (STRlingError InvalidQuantifier [])"
proof -
  have s: "typeof_string (JSString ''a|b'')"
    by (simp add: typeof_string_def)
  have e: "ahead (JSString ''a|b'') [] =
     (Inr 1, [makeFragment (''a'' @ [backslash] @ ''|b'') (Some False) None None,
              makeFragment (''(?=a'' @ [backslash] @ ''|b)'') None None (Some True)])"
    by (simp add: lookaround_unfold lookaround_string metachars_def backslash_def)
  from lookaround_flags [of "JSString ''a|b''" "[]"] s
  have "\<exists>r h1. ahead (JSString ''a|b'') [] = (Inr r, h1) \<and> r < length h1 \<and>
             composite (h1 ! r) \<and> \<not> isAtomic (h1 ! r) \<and> \<not> isNegatedClass (h1 ! r) \<and>
             (\<forall>rep. rep \<noteq> NoRep \<longrightarrow>
                quantify r rep h1 = (Inl (STRlingError InvalidQuantifier []), h1))"
    by (simp add: lookarounds_def typeof_string_def)
  with e s show ?thesis by auto
qed


lemma message_names_method:
  "sublist (''simply.'' @ name @ ''(pattern)'') (invalid_pattern_message name)"
  unfolding invalid_pattern_message_def by (rule sublist_appendI)

lemma lit_eq:
  "lit s h =
     (length h, h @ [makeFragment (escapeLiteral s) (Some (length (escapeLiteral s) = 1)) None None])"
  by (simp add: lit_def new_Pattern_eq)

lemma lookarounds_all:
  "(\<And>name opn. P name (lookaround name opn)) \<Longrightarrow> \<forall>(name, op) \<in> set lookarounds. P name op"
  unfolding lookarounds_def lookaround_unfold by simp

lemma lookarounds_member:
  "(''ahead'', ahead) \<in> set lookarounds"
  "(''notAhead'', notAhead) \<in> set lookarounds"
  "(''behind'', behind) \<in> set lookarounds"
  "(''notBehind'', notBehind) \<in> set lookarounds"
  "(''has'', has) \<in> set lookarounds"
  "(''hasNot'', hasNot) \<in> set lookarounds"
  by (simp_all add: lookarounds_def)

lemma lookaround_invalid_general:
  "failure_kind (lookaround name opn v h) =
     (if \<not> typeof_string v \<and> \<not> instanceof_Pattern v then Some InvalidArgument else None) \<and>
   (\<not> typeof_string v \<and> \<not> instanceof_Pattern v \<longrightarrow>
      fst (lookaround name opn v h) =
        Inl (STRlingError InvalidArgument (invalid_pattern_message name))) \<and>
   sublist (''simply.'' @ name @ ''(pattern)'') (invalid_pattern_message name) \<and>
   (\<forall>s. lookaround name opn (JSString s) h =
          lookaround name opn (JSPattern (fst (lit s h))) (snd (lit s h)) \<and>
        toString (snd (lit s h)) (fst (lit s h)) = escapeLiteral s \<and>
        (\<exists>r. fst (lookaround name opn (JSString s) h) = Inr r))"
proof (intro conjI allI impI)
  show "failure_kind (lookaround name opn v h) =
     (if \<not> typeof_string v \<and> \<not> instanceof_Pattern v then Some InvalidArgument else None)"
    by (rule lookaround_failure_kind)
  show "sublist (''simply.'' @ name @ ''(pattern)'') (invalid_pattern_message name)"
    by (rule message_names_method)
next
  assume "\<not> typeof_string v \<and> \<not> instanceof_Pattern v"
  then show "fst (lookaround name opn v h) =
        Inl (STRlingError InvalidArgument (invalid_pattern_message name))"
    by (simp add: lookaround_other)
next
  fix s
  show "lookaround name opn (JSString s) h =
          lookaround name opn (JSPattern (fst (lit s h))) (snd (lit s h))"
    by (simp add: lookaround_string lookaround_pattern lit_eq makeFragment_sel)
  show "toString (snd (lit s h)) (fst (lit s h)) = escapeLiteral s"
    by (simp add: lit_eq toString_def makeFragment_sel)
  show "\<exists>r. fst (lookaround name opn (JSString s) h) = Inr r"
    by (simp add: lookaround_string)
qed

text \<open>
  C3. Each of the six lookaround constructors fails, with an \<open>InvalidArgument\<close> error,
  if and only if its argument is neither a string nor a \<open>Pattern\<close>; the error carries
  the message of the source, which names the method (\<open>simply.ahead(pattern)\<close> and so
  on). Given a string, the constructor first makes it a \<open>Pattern\<close> with \<open>lit\<close> (whose
  text is the escaped string), goes on as for that \<open>Pattern\<close>, and succeeds.
\<close>

theorem lookaround_invalid_argument:
  "\<forall>(name, op) \<in> set lookarounds.
     failure_kind (op v h) =
       (if \<not> typeof_string v \<and> \<not> instanceof_Pattern v then Some InvalidArgument else None) \<and>
     (\<not> typeof_string v \<and> \<not> instanceof_Pattern v \<longrightarrow>
        fst (op v h) = Inl (STRlingError InvalidArgument (invalid_pattern_message name))) \<and>
     sublist (''simply.'' @ name @ ''(pattern)'') (invalid_pattern_message name) \<and>
     (\<forall>s. op (JSString s) h = op (JSPattern (fst (lit s h))) (snd (lit s h)) \<and>
          toString (snd (lit s h)) (fst (lit s h)) = escapeLiteral s \<and>
          (\<exists>r. fst (op (JSString s) h) = Inr r))"
  by (rule lookarounds_all) (rule lookaround_invalid_general)

theorem lookaround_invalid_argument_witness:
  "\<not> typeof_string (JSNumber 7) \<and> \<not> instanceof_Pattern (JSNumber 7) \<and>
   failure_kind (notBehind (JSNumber 7) []) = Some InvalidArgument \<and>
   fst (notBehind (JSNumber 7) []) =
     Inl (STRlingError InvalidArgument (invalid_pattern_message ''notBehind'')) \<and>
   sublist ''simply.notBehind(pattern)'' (invalid_pattern_message ''notBehind'') \<and>
   fst (notBehind (JSString ''a.b'') []) = Inr 1 \<and>
   toString (snd (lit ''a.b'' [])) (fst (lit ''a.b'' [])) = ''a'' @ [backslash] @ ''.b''"
proof -
  have n: "\<not> typeof_string (JSNumber 7) \<and> \<not> instanceof_Pattern (JSNumber 7)"
    by (simp add: typeof_string_def instanceof_Pattern_def)
  have e: "escapeLiteral ''a.b'' = ''a'' @ [backslash] @ ''.b''"
    by (simp add: metachars_def backslash_def)
  have r: "fst (notBehind (JSString ''a.b'') []) = Inr 1"
    by (simp add: lookaround_unfold lookaround_string)
  note w = lookaround_invalid_argument [of "JSNumber 7" "[]", THEN bspec, OF lookarounds_member(4)]
  from w n e r show ?thesis by simp
qed


lemma quantify_failure:
  "failure_kind (quantify a rep h) =
     (if rep \<noteq> NoRep \<and> (invalid_repetition rep \<or> composite (h ! a))
      then Some InvalidQuantifier else None)"
  by (simp add: quantify_def failure_kind_def new_Pattern_eq)

lemma quantify_store:
  "snd (quantify a rep h) =
     (if rep = NoRep \<or> invalid_repetition rep \<or> composite (h ! a) then h
      else h @ [makeFragment
                  ((if isAtomic (h ! a) then pattern (h ! a) else ''(?:'' @ pattern (h ! a) @ '')'')
                   @ repeat_suffix rep) (Some False) (Some False) (Some False)])"
  by (simp add: quantify_def new_Pattern_eq Let_def)

lemma quantify_ref:
  "fst (quantify a rep h) =
     (if rep = NoRep then Inr a
      else if invalid_repetition rep \<or> composite (h ! a)
        then Inl (STRlingError InvalidQuantifier [])
      else Inr (length h))"
  by (simp add: quantify_def new_Pattern_eq Let_def)

lemma merge_eq:
  "merge as h =
     (if as = [] then (Inl (STRlingError InvalidArgument []), h)
      else (Inr (length h),
            h @ [makeFragment (concat (map (\<lambda>a. pattern (h ! a)) as)) (Some False) (Some False)
                   (Some (1 < length as \<and> (\<exists>a \<in> set as. composite (h ! a))))]))"
  by (simp add: merge_def new_Pattern_eq toString_def [abs_def])

lemma lookaround_failed_store:
  "failure_kind (lookaround name opn v h) \<noteq> None \<longrightarrow>
     snd (lookaround name opn v h) = h \<and>
     (\<exists>e. result_of (lookaround name opn v h) = Inl e)"
  by (cases v rule: value_cases)
     (simp_all add: lookaround_string lookaround_pattern lookaround_other failure_kind_def
        result_of_def)

text \<open>
  C7. A failed call is atomic. A call of the core returns its error as its own result,
  and when it does (one of the six lookaround constructors, the quantifier applier or
  \<open>merge\<close>), the store it leaves is the store it was given: no \<open>Pattern\<close> was
  allocated, none was changed, and the caller receives the error and no \<open>Pattern\<close>.
\<close>

theorem failed_call_atomic:
  "(\<forall>(name, op) \<in> set lookarounds.
      failure_kind (op v h) \<noteq> None \<longrightarrow>
        snd (op v h) = h \<and> (\<exists>e. result_of (op v h) = Inl e)) \<and>
   (failure_kind (quantify a rep h) \<noteq> None \<longrightarrow>
      snd (quantify a rep h) = h \<and> (\<exists>e. result_of (quantify a rep h) = Inl e)) \<and>
   (failure_kind (merge as h) \<noteq> None \<longrightarrow>
      snd (merge as h) = h \<and> (\<exists>e. result_of (merge as h) = Inl e))"
proof (intro conjI)
  show "\<forall>(name, op) \<in> set lookarounds.
      failure_kind (op v h) \<noteq> None \<longrightarrow>
        snd (op v h) = h \<and> (\<exists>e. result_of (op v h) = Inl e)"
    by (rule lookarounds_all) (rule lookaround_failed_store)
  show "failure_kind (quantify a rep h) \<noteq> None \<longrightarrow>
      snd (quantify a rep h) = h \<and> (\<exists>e. result_of (quantify a rep h) = Inl e)"
    by (simp add: quantify_failure quantify_store quantify_ref result_of_def)
  show "failure_kind (merge as h) \<noteq> None \<longrightarrow>
      snd (merge as h) = h \<and> (\<exists>e. result_of (merge as h) = Inl e)"
    by (simp add: merge_eq failure_kind_def result_of_def)
qed

theorem failed_call_atomic_witness:
  "failure_kind (has JSNull [makeFragment ''a'' (Some True) None None]) = Some InvalidArgument \<and>
   snd (has JSNull [makeFragment ''a'' (Some True) None None]) =
     [makeFragment ''a'' (Some True) None None] \<and>
   failure_kind (quantify 0 (MinMaxRep 3 2) [makeFragment ''a'' (Some True) None None]) =
     Some InvalidQuantifier \<and>
   snd (quantify 0 (MinMaxRep 3 2) [makeFragment ''a'' (Some True) None None]) =
     [makeFragment ''a'' (Some True) None None] \<and>
   failure_kind (merge [] [makeFragment ''a'' (Some True) None None]) = Some InvalidArgument \<and>
   snd (merge [] [makeFragment ''a'' (Some True) None None]) =
     [makeFragment ''a'' (Some True) None None]"
proof -
  let ?h = "[makeFragment ''a'' (Some True) None None]"
  have k: "failure_kind (has JSNull ?h) = Some InvalidArgument"
    "failure_kind (quantify 0 (MinMaxRep 3 2) ?h) = Some InvalidQuantifier"
    "failure_kind (merge [] ?h) = Some InvalidArgument"
    by (simp_all add: lookaround_unfold lookaround_failure_kind typeof_string_def
        instanceof_Pattern_def quantify_failure makeFragment_sel)
       (simp add: merge_eq failure_kind_def)
  note w = failed_call_atomic [of JSNull ?h 0 "MinMaxRep 3 2" "[]"]
  note w1 = w [THEN conjunct1, THEN bspec, OF lookarounds_member(5)]
  from w w1 k show ?thesis by simp
qed




lemma quantify_result:
  "result_of (quantify a rep h) =
     (if rep = NoRep then Inr (h ! a)
      else if invalid_repetition rep \<or> composite (h ! a)
        then Inl (STRlingError InvalidQuantifier [])
      else Inr (makeFragment
                  ((if isAtomic (h ! a) then pattern (h ! a) else ''(?:'' @ pattern (h ! a) @ '')'')
                   @ repeat_suffix rep) (Some False) (Some False) (Some False)))"
  by (simp add: result_of_def quantify_ref quantify_store)






lemma factory_unfold:
  "notNewline rep h = quantify (length h) rep (h @ [makeFragment ''.'' None None None])"
  "notCarriage rep h = quantify (length h) rep (h @ [makeFragment ''.'' None None None])"
  "tab rep h = quantify (length h) rep (h @ [makeFragment [backslash, CHR ''t''] None None None])"
  "notTab rep h = quantify (length h) rep (h @ [makeFragment [backslash, CHR ''T''] None None None])"
  "digit rep h = quantify (length h) rep (h @ [makeFragment [backslash, CHR ''d''] None None None])"
  "notDigit rep h = quantify (length h) rep (h @ [makeFragment [backslash, CHR ''D''] None None None])"
  "notHexDigit rep h =
     quantify (length h) rep
       (h @ [makeFragment (''[^A-Fa-f'' @ [backslash] @ ''d]'') None None None])"
  "notAlphaNum rep h =
     quantify (length h) rep (h @ [makeFragment ''[^A-Za-z0-9]'' (Some True) (Some True) None])"
  "notLetter rep h =
     quantify (length h) rep (h @ [makeFragment ''[^A-Za-z]'' (Some True) (Some True) None])"
  "notUpper rep h =
     quantify (length h) rep (h @ [makeFragment ''[^A-Z]'' (Some True) (Some True) None])"
  "notLower rep h =
     quantify (length h) rep (h @ [makeFragment ''[^a-z]'' (Some True) (Some True) None])"
  "notSpecialChar rep h =
     quantify (Suc (length h)) rep
       (h @ [makeFragment (escapeLiteral special_characters)
               (Some (length (escapeLiteral special_characters) = 1)) None None,
             makeFragment (''[^'' @ escapeLiteral special_characters @ '']'')
               (Some True) (Some True) None])"
  by (simp_all add: notNewline_def notCarriage_def tab_def notTab_def digit_def notDigit_def
      notHexDigit_def notAlphaNum_def notLetter_def notUpper_def notLower_def
      notSpecialChar_def lit_eq new_Pattern_eq toString_def nth_append makeFragment_sel)

lemma quantify_fresh_NoRep:
  "result_of (quantify (length h) NoRep (h @ [p])) = Inr p"
  "result_of (quantify (Suc (length h)) NoRep (h @ [q, p])) = Inr p"
  by (simp_all add: quantify_result nth_append)

lemma quantify_plain_result:
  assumes "result_of (quantify a rep h) = Inr p" "\<not> isNegatedClass (h ! a)"
  shows "\<not> isNegatedClass p"
  using assms by (auto simp: quantify_result makeFragment_sel split: if_splits)

text \<open>
  C4. For every repetition, \<open>notNewline\<close> and \<open>notCarriage\<close> are built from the text
  \<open>.\<close> (any character), with no flag: not from a negated class of the character. So
  the two return the same result, and with no repetition that result is the
  \<open>Pattern\<close> of text \<open>.\<close>, not marked as a negated class.
\<close>

theorem not_newline_not_carriage_any_character:
  "notNewline rep h = quantify (length h) rep (h @ [makeFragment ''.'' None None None]) \<and>
   notCarriage rep h = quantify (length h) rep (h @ [makeFragment ''.'' None None None]) \<and>
   notNewline rep h = notCarriage rep h \<and>
   result_of (notNewline NoRep h) = Inr (makeFragment ''.'' None None None) \<and>
   result_of (notCarriage NoRep h) = Inr (makeFragment ''.'' None None None) \<and>
   pattern (makeFragment ''.'' None None None) = ''.'' \<and>
   isNegatedClass (makeFragment ''.'' None None None) = False"
  by (simp add: factory_unfold quantify_fresh_NoRep makeFragment_sel)

text \<open>
  C9. For every repetition, \<open>notTab\<close> is built from the text backslash \<open>T\<close> and \<open>tab\<close>
  from backslash \<open>t\<close>. In the target dialect the escape of \<open>t\<close> matches the tab
  character, while the escape of \<open>T\<close> is an identity escape and matches the letter
  \<open>T\<close> alone: there are characters other than the tab that it does not match, so the
  text of \<open>notTab\<close> does not stand for "any character that is not a tab".
\<close>

theorem not_tab_is_letter_T:
  "notTab rep h =
     quantify (length h) rep (h @ [makeFragment [backslash, CHR ''T''] None None None]) \<and>
   tab rep h =
     quantify (length h) rep (h @ [makeFragment [backslash, CHR ''t''] None None None]) \<and>
   result_of (notTab NoRep h) = Inr (makeFragment [backslash, CHR ''T''] None None None) \<and>
   result_of (tab NoRep h) = Inr (makeFragment [backslash, CHR ''t''] None None None) \<and>
   escape_meaning (CHR ''t'') = MatchesChar (CHR 0x09) \<and>
   escape_meaning (CHR ''T'') = MatchesChar (CHR ''T'') \<and>
   (\<exists>c. c \<noteq> CHR 0x09 \<and> escape_meaning (CHR ''T'') \<noteq> MatchesChar c)"
proof -
  have "CHR ''a'' \<noteq> CHR 0x09 \<and> escape_meaning (CHR ''T'') \<noteq> MatchesChar (CHR ''a'')"
    by (simp add: escape_meaning_def)
  then have "\<exists>c. c \<noteq> CHR 0x09 \<and> escape_meaning (CHR ''T'') \<noteq> MatchesChar c"
    by (rule exI)
  then show ?thesis
    by (simp add: factory_unfold quantify_fresh_NoRep escape_meaning_def)
qed

text \<open>
  C10. \<open>notAlphaNum\<close>, \<open>notSpecialChar\<close>, \<open>notLetter\<close>, \<open>notUpper\<close> and \<open>notLower\<close> construct
  their \<open>Pattern\<close> with the third constructor argument true, so it is marked as a
  negated class, and with no repetition that marked \<open>Pattern\<close> is what they return.
  \<open>notDigit\<close> and \<open>notHexDigit\<close> construct theirs (backslash \<open>D\<close>, and the bracket
  expression \<open>[^A-Fa-f\<close> backslash \<open>d]\<close>) with no flag at all, and whatever repetition
  they are given, a \<open>Pattern\<close> they return is not marked as a negated class.
\<close>

theorem negated_class_flags:
  "notAlphaNum rep h =
     quantify (length h) rep (h @ [makeFragment ''[^A-Za-z0-9]'' (Some True) (Some True) None]) \<and>
   notSpecialChar rep h =
     quantify (Suc (length h)) rep
       (h @ [makeFragment (escapeLiteral special_characters)
               (Some (length (escapeLiteral special_characters) = 1)) None None,
             makeFragment (''[^'' @ escapeLiteral special_characters @ '']'')
               (Some True) (Some True) None]) \<and>
   notLetter rep h =
     quantify (length h) rep (h @ [makeFragment ''[^A-Za-z]'' (Some True) (Some True) None]) \<and>
   notUpper rep h =
     quantify (length h) rep (h @ [makeFragment ''[^A-Z]'' (Some True) (Some True) None]) \<and>
   notLower rep h =
     quantify (length h) rep (h @ [makeFragment ''[^a-z]'' (Some True) (Some True) None]) \<and>
   isNegatedClass (makeFragment t (Some True) (Some True) None) = True \<and>
   (\<exists>p. result_of (notAlphaNum NoRep h) = Inr p \<and> isNegatedClass p) \<and>
   (\<exists>p. result_of (notSpecialChar NoRep h) = Inr p \<and> isNegatedClass p) \<and>
   (\<exists>p. result_of (notLetter NoRep h) = Inr p \<and> isNegatedClass p) \<and>
   (\<exists>p. result_of (notUpper NoRep h) = Inr p \<and> isNegatedClass p) \<and>
   (\<exists>p. result_of (notLower NoRep h) = Inr p \<and> isNegatedClass p) \<and>
   notDigit rep h =
     quantify (length h) rep (h @ [makeFragment [backslash, CHR ''D''] None None None]) \<and>
   notHexDigit rep h =
     quantify (length h) rep
       (h @ [makeFragment (''[^A-Fa-f'' @ [backslash] @ ''d]'') None None None]) \<and>
   makeFragment t None None None =
     \<lparr>pattern = t, isAtomic = False, isNegatedClass = False, composite = False\<rparr> \<and>
   (\<forall>p. result_of (notDigit rep h) = Inr p \<longrightarrow> \<not> isNegatedClass p) \<and>
   (\<forall>p. result_of (notHexDigit rep h) = Inr p \<longrightarrow> \<not> isNegatedClass p)"
proof -
  have plain: "\<forall>p. result_of (quantify (length h) rep (h @ [makeFragment t None None None])) = Inr p
      \<longrightarrow> \<not> isNegatedClass p" for t
    by (auto dest!: quantify_plain_result simp: makeFragment_sel)
  show ?thesis
    by (simp add: factory_unfold quantify_fresh_NoRep makeFragment_sel plain)
qed

theorem negated_class_flags_witness:
  "result_of (notDigit NoRep []) = Inr (makeFragment [backslash, CHR ''D''] None None None) \<and>
   \<not> isNegatedClass (makeFragment [backslash, CHR ''D''] None None None) \<and>
   result_of (notHexDigit (MinRep 2) []) =
     Inr (makeFragment (''(?:[^A-Fa-f'' @ [backslash] @ ''d]){2}'') (Some False) (Some False) (Some False)) \<and>
   \<not> isNegatedClass
      (makeFragment (''(?:[^A-Fa-f'' @ [backslash] @ ''d]){2}'') (Some False) (Some False) (Some False))"
proof -
  have r1: "result_of (notDigit NoRep []) = Inr (makeFragment [backslash, CHR ''D''] None None None)"
    by (simp add: factory_unfold quantify_result)
  have r2: "result_of (notHexDigit (MinRep 2) []) =
     Inr (makeFragment (''(?:[^A-Fa-f'' @ [backslash] @ ''d]){2}'') (Some False) (Some False) (Some False))"
    by (simp add: factory_unfold quantify_result makeFragment_sel digit_char_def is_integer_simps)
  note w = negated_class_flags [of NoRep "[]"] negated_class_flags [of "MinRep 2" "[]"]
  from w r1 r2 show ?thesis by simp
qed





text \<open>
  C6. \<open>merge\<close> with no argument fails with \<open>InvalidArgument\<close>. \<open>merge\<close> of one fragment
  returns a fragment with the same text that is not atomic, also when the argument is
  atomic.
\<close>

theorem merge_none_and_one:
  "failure_kind (merge [] h) = Some InvalidArgument \<and>
   (\<exists>p. result_of (merge [a] h) = Inr p \<and> pattern p = pattern (h ! a) \<and> \<not> isAtomic p) \<and>
   isAtomic ([makeFragment ''[a-z]'' (Some True) None None] ! 0) \<and>
   result_of (merge [0] [makeFragment ''[a-z]'' (Some True) None None]) =
     Inr (makeFragment ''[a-z]'' (Some False) (Some False) (Some False))"
  by (simp add: merge_eq failure_kind_def result_of_def makeFragment_sel)

end
